theory Spec2Isabelle
  imports Complex_Main
begin

section \<open>ATC transcription quality test: the comparison harness\<close>

text \<open>
  A shallow embedding of \<^verbatim>\<open>test_samples/test_atc_transcription.py\<close>.

  Conventions of the model:
  \<^item> a Python \<^verbatim>\<open>str\<close> is a \<^typ>\<open>string\<close>, read as the list of its code points below 256
    (ASCII and Latin-1); \<^verbatim>\<open>str.lower\<close>, \<^verbatim>\<open>str.split\<close> and \<^verbatim>\<open>str.strip\<close> are written out
    for that range;
  \<^item> a Python \<^verbatim>\<open>float\<close> is a \<^typ>\<open>real\<close>: the scores are quotients of small integers and
    the properties below are comparisons that rounding preserves;
  \<^item> a Python \<^verbatim>\<open>int\<close> is an \<^typ>\<open>int\<close>;
  \<^item> an exception is a value of type \<open>exn\<close>, and a computation that may raise returns
    \<open>exn + 'a\<close> (\<open>Inl\<close> the exception).
\<close>

subsection \<open>Exceptions\<close>

text \<open>
  The type \<open>exn\<close> stands for instances of Python's \<^verbatim>\<open>Exception\<close>: a class (as far as the
  \<^verbatim>\<open>except\<close> clauses of the program tell classes apart) and the text \<^verbatim>\<open>str(e)\<close>.
  \<open>ImportError\<close> covers its subclass \<^verbatim>\<open>ModuleNotFoundError\<close>.
\<close>

datatype exn_class = ImportError | KeyError | ValueError | ZeroDivisionError | RuntimeError

datatype exn = Exn (exn_class: exn_class) (message: string)

subsection \<open>Strings\<close>

text \<open>\<^verbatim>\<open>str.isspace\<close> on one character: TAB, LF, VT, FF, CR, FS, GS, RS, US, space, NEL, NBSP.\<close>

definition isspace :: "char \<Rightarrow> bool" where
  "isspace c =
     (let n = (of_char c :: nat)
      in (9 \<le> n \<and> n \<le> 13) \<or> (28 \<le> n \<and> n \<le> 32) \<or> n = 133 \<or> n = 160)"

text \<open>\<^verbatim>\<open>str.lower\<close>: A to Z, and the Latin-1 capitals (all of 192 to 222 but the sign 215).\<close>

definition lower_char :: "char \<Rightarrow> char" where
  "lower_char c =
     (let n = (of_char c :: nat)
      in if (65 \<le> n \<and> n \<le> 90) \<or> (192 \<le> n \<and> n \<le> 222 \<and> n \<noteq> 215)
         then char_of (n + 32) else c)"

definition lower :: "string \<Rightarrow> string" where
  "lower s = map lower_char s"

text \<open>
  \<^verbatim>\<open>str.split()\<close> with no separator: the maximal runs of characters that are not
  whitespace, in order; no empty word. The first argument is the word read so far.
\<close>

fun split_from :: "string \<Rightarrow> string \<Rightarrow> string list" where
  "split_from w [] = (if w = [] then [] else [w])"
| "split_from w (c # cs) =
     (if isspace c then (if w = [] then split_from [] cs else w # split_from [] cs)
      else split_from (w @ [c]) cs)"

definition split :: "string \<Rightarrow> string list" where
  "split s = split_from [] s"

text \<open>\<^verbatim>\<open>str.strip()\<close>: whitespace removed at both ends.\<close>

definition strip :: "string \<Rightarrow> string" where
  "strip s = rev (dropWhile isspace (rev (dropWhile isspace s)))"

subsection \<open>The word error rate\<close>

text \<open>
  The \<^verbatim>\<open>for r, h in zip(ref_words, hyp_words)\<close> loop of \<^verbatim>\<open>calculate_wer\<close>, with the
  counter \<^verbatim>\<open>errors\<close> threaded through; \<^verbatim>\<open>zip\<close> stops at the shorter sequence.
\<close>

fun count_errors :: "int \<Rightarrow> string list \<Rightarrow> string list \<Rightarrow> int" where
  "count_errors errors (r # rs) (h # hs) =
     count_errors (if r \<noteq> h then errors + 1 else errors) rs hs"
| "count_errors errors _ _ = errors"

text \<open>The \<^verbatim>\<open>except ImportError\<close> branch of \<^verbatim>\<open>calculate_wer\<close> (lines 34 to 43).\<close>

definition wer_fallback :: "string \<Rightarrow> string \<Rightarrow> real" where
  "wer_fallback reference hypothesis =
     (let ref_words = split (lower reference);
          hyp_words = split (lower hypothesis)
      in if ref_words = [] then (if hyp_words \<noteq> [] then 1 else 0)
         else
           (let errors = \<bar>int (length ref_words) - int (length hyp_words)\<bar>;
                errors = count_errors errors ref_words hyp_words
            in min 1 (real_of_int errors / real (length ref_words))))"

text \<open>
  \<^verbatim>\<open>calculate_wer\<close>. The \<^verbatim>\<open>try\<close> block imports \<^verbatim>\<open>jiwer.wer\<close> and calls it on the lowercased
  strings. The library is not part of the program, so the outcome of the import is an
  argument: \<open>Inl e\<close> when the import raises \<open>e\<close>, \<open>Inr wer\<close> when it gives the function
  \<open>wer\<close>, which may itself raise. Only an \<open>ImportError\<close> is caught (from the import or from
  the call); it selects the fallback. Any other exception leaves \<^verbatim>\<open>calculate_wer\<close>.
\<close>

type_synonym scorer = "exn + (string \<Rightarrow> string \<Rightarrow> exn + real)"

definition calculate_wer :: "scorer \<Rightarrow> string \<Rightarrow> string \<Rightarrow> exn + real" where
  "calculate_wer jiwer reference hypothesis =
     (case (case jiwer of
              Inl e \<Rightarrow> Inl e
            | Inr wer \<Rightarrow> wer (lower reference) (lower hypothesis)) of
        Inr v \<Rightarrow> Inr v
      | Inl e \<Rightarrow>
          if exn_class e = ImportError then Inr (wer_fallback reference hypothesis)
          else Inl e)"

text \<open>The state of the environment in which the import fails: \<^verbatim>\<open>jiwer\<close> is not installed.\<close>

definition jiwer_missing :: scorer where
  "jiwer_missing = Inl (Exn ImportError ''No module named jiwer'')"

subsection \<open>Console output\<close>

text \<open>
  The program reports on standard output only. Each \<^verbatim>\<open>print\<close> call is one value of \<open>out\<close>,
  carrying the values the line is formatted from.
\<close>

datatype out =
    Rule
  | Title
  | Blank
  | LoadingDataset
  | Loaded nat
  | ErrorLoading string
  | NoSamples
  | SampleHeader int
  | GroundTruth string
  | TestingGeneric
  | TestingAtc
  | Transcription string
  | WerLine real
  | SummaryTitle
  | AverageGeneric real
  | AverageAtc real
  | Improvement real
  | Recommended
  | ConsiderLarger
  | MissingDependencies
  | PipInstall "string list"
  | Alternatively
  | DemoCommand

subsection \<open>Samples and the corpus\<close>

text \<open>The \<^verbatim>\<open>audio\<close> dictionary of a corpus entry, with the two keys the program reads.\<close>

record audio_data =
  array :: "real list"
  sampling_rate :: int

text \<open>
  A corpus entry is a dictionary; \<open>None\<close> is an absent key, and reading it raises
  \<^verbatim>\<open>KeyError\<close>. Iterating over the dataset gives an entry or raises.
\<close>

record item =
  item_audio :: "audio_data option"
  item_text :: "string option"

type_synonym dataset = "(exn + item) list"

text \<open>The dictionary \<^verbatim>\<open>{"audio": ..., "text": ..., "id": i}\<close> built by \<^verbatim>\<open>load_atc_samples\<close>.\<close>

record sample =
  sample_audio :: audio_data
  sample_text :: string
  sample_id :: int

subsection \<open>The environment\<close>

text \<open>
  What the program gets from outside itself:
  \<^item> \<open>jiwer\<close>: the outcome of \<^verbatim>\<open>from jiwer import wer\<close>;
  \<^item> \<open>load_dataset\<close>: the outcome of importing \<^verbatim>\<open>datasets\<close> and calling
    \<^verbatim>\<open>load_dataset("jacktol/atc-dataset", split="test")\<close>;
  \<^item> \<open>generic_whisper\<close>, \<open>atc_whisper\<close>: the outcome of the \<^verbatim>\<open>try\<close> body of each
    transcription function up to \<^verbatim>\<open>batch_decode(...)[0]\<close> (imports, loading
    \<^verbatim>\<open>openai/whisper-small.en\<close> or \<^verbatim>\<open>jacktol/whisper-medium.en-fine-tuned-for-ATC\<close>,
    inference, decoding), on a waveform and a sample rate;
  \<^item> \<open>importable\<close>: whether \<^verbatim>\<open>import m\<close> succeeds, for \<^verbatim>\<open>check_dependencies\<close>.
\<close>

record env =
  jiwer :: scorer
  load_dataset :: "exn + dataset"
  generic_whisper :: "real list \<Rightarrow> int \<Rightarrow> exn + string"
  atc_whisper :: "real list \<Rightarrow> int \<Rightarrow> exn + string"
  importable :: "string \<Rightarrow> bool"

subsection \<open>Loading samples\<close>

text \<open>
  The loop \<^verbatim>\<open>for i, item in enumerate(dataset)\<close> of \<^verbatim>\<open>load_atc_samples\<close>. The iterator
  produces the entry (or raises) before the test \<^verbatim>\<open>i >= num_samples\<close>; the keys are read
  after it, \<^verbatim>\<open>"audio"\<close> first.
\<close>

fun collect_samples :: "int \<Rightarrow> int \<Rightarrow> dataset \<Rightarrow> sample list \<Rightarrow> exn + sample list" where
  "collect_samples num_samples i [] samples = Inr samples"
| "collect_samples num_samples i (Inl e # rest) samples = Inl e"
| "collect_samples num_samples i (Inr item # rest) samples =
     (if i \<ge> num_samples then Inr samples
      else
        (case item_audio item of
           None \<Rightarrow> Inl (Exn KeyError (CHR 0x27 # ''audio'' @ [CHR 0x27]))
         | Some a \<Rightarrow>
             (case item_text item of
                None \<Rightarrow> Inl (Exn KeyError (CHR 0x27 # ''text'' @ [CHR 0x27]))
              | Some t \<Rightarrow>
                  collect_samples num_samples (i + 1) rest
                    (samples @ [\<lparr>sample_audio = a, sample_text = t, sample_id = i\<rparr>]))))"

text \<open>The \<^verbatim>\<open>try\<close> body of \<^verbatim>\<open>load_atc_samples\<close>, without its prints.\<close>

definition load_attempt :: "env \<Rightarrow> int \<Rightarrow> exn + sample list" where
  "load_attempt env num_samples =
     (case load_dataset env of
        Inl e \<Rightarrow> Inl e
      | Inr dataset \<Rightarrow> collect_samples num_samples 0 dataset [])"

text \<open>\<^verbatim>\<open>load_atc_samples\<close>: the samples returned and the lines printed.\<close>

definition load_atc_samples :: "env \<Rightarrow> int \<Rightarrow> sample list \<times> out list" where
  "load_atc_samples env num_samples =
     (case load_attempt env num_samples of
        Inr samples \<Rightarrow> (samples, [LoadingDataset, Loaded (length samples)])
      | Inl e \<Rightarrow> ([], [LoadingDataset, ErrorLoading (message e)]))"

subsection \<open>The two backends\<close>

definition transcribe_with_generic_whisper :: "env \<Rightarrow> real list \<Rightarrow> int \<Rightarrow> string" where
  "transcribe_with_generic_whisper env audio_array sample_rate =
     (case generic_whisper env audio_array sample_rate of
        Inr transcription \<Rightarrow> strip transcription
      | Inl e \<Rightarrow> ''[Error: '' @ message e @ '']'')"

definition transcribe_with_atc_whisper :: "env \<Rightarrow> real list \<Rightarrow> int \<Rightarrow> string" where
  "transcribe_with_atc_whisper env audio_array sample_rate =
     (case atc_whisper env audio_array sample_rate of
        Inr transcription \<Rightarrow> strip transcription
      | Inl e \<Rightarrow> ''[Error: '' @ message e @ '']'')"

subsection \<open>The comparison run\<close>

text \<open>
  The state of \<^verbatim>\<open>run_comparison_test\<close>: the lines printed so far, the two lists of scores,
  and \<open>calls\<close>, a trace of the backend invocations made so far with the text each returned
  (the program keeps no such list; the trace records the calls it makes).
\<close>

datatype backend = Generic | Atc

record run_state =
  stdout :: "out list"
  calls :: "(backend \<times> string) list"
  generic_wers :: "real list"
  atc_wers :: "real list"

text \<open>
  One iteration of \<^verbatim>\<open>for sample in samples\<close> (lines 148 to 172). The second component is
  the exception that leaves the loop, if any: \<^verbatim>\<open>calculate_wer\<close> is called outside any
  \<^verbatim>\<open>try\<close>.
\<close>

definition loop_body :: "env \<Rightarrow> sample \<Rightarrow> run_state \<Rightarrow> run_state \<times> exn option" where
  "loop_body env sample st =
     (let audio = sample_audio sample;
          ground_truth = sample_text sample;
          audio_array = array audio;
          sample_rate = sampling_rate audio;
          st1 = st\<lparr>stdout := stdout st @
                  [SampleHeader (sample_id sample + 1), GroundTruth ground_truth, Blank,
                   TestingGeneric]\<rparr>;
          generic_result = transcribe_with_generic_whisper env audio_array sample_rate;
          st2 = st1\<lparr>calls := calls st1 @ [(Generic, generic_result)]\<rparr>
      in case calculate_wer (jiwer env) ground_truth generic_result of
           Inl e \<Rightarrow> (st2, Some e)
         | Inr generic_wer \<Rightarrow>
             (let st3 = st2\<lparr>generic_wers := generic_wers st2 @ [generic_wer],
                            stdout := stdout st2 @
                              [Transcription generic_result, WerLine generic_wer,
                               TestingAtc]\<rparr>;
                  atc_result = transcribe_with_atc_whisper env audio_array sample_rate;
                  st4 = st3\<lparr>calls := calls st3 @ [(Atc, atc_result)]\<rparr>
              in case calculate_wer (jiwer env) ground_truth atc_result of
                   Inl e \<Rightarrow> (st4, Some e)
                 | Inr atc_wer \<Rightarrow>
                     (st4\<lparr>atc_wers := atc_wers st4 @ [atc_wer],
                          stdout := stdout st4 @
                            [Transcription atc_result, WerLine atc_wer]\<rparr>, None)))"

fun comparison_loop :: "env \<Rightarrow> sample list \<Rightarrow> run_state \<Rightarrow> run_state \<times> exn option" where
  "comparison_loop env [] st = (st, None)"
| "comparison_loop env (sample # samples) st =
     (case loop_body env sample st of
        (st', Some e) \<Rightarrow> (st', Some e)
      | (st', None) \<Rightarrow> comparison_loop env samples st')"

text \<open>
  The summary (lines 174 to 190). The quotient of line 184 is evaluated before the line
  is printed; with a zero \<^verbatim>\<open>avg_generic_wer\<close> Python raises \<^verbatim>\<open>ZeroDivisionError\<close> there
  (the message is the one of a float quotient; no property below depends on it beyond the
  evaluation of C3).
\<close>

definition summary :: "run_state \<Rightarrow> run_state \<times> exn option" where
  "summary st =
     (let avg_generic_wer =
            (if generic_wers st \<noteq> []
             then sum_list (generic_wers st) / real (length (generic_wers st)) else 0);
          avg_atc_wer =
            (if atc_wers st \<noteq> []
             then sum_list (atc_wers st) / real (length (atc_wers st)) else 0);
          st1 = st\<lparr>stdout := stdout st @
                  [Rule, SummaryTitle, Rule,
                   AverageGeneric avg_generic_wer, AverageAtc avg_atc_wer]\<rparr>
      in if avg_generic_wer = 0
         then (st1, Some (Exn ZeroDivisionError ''float division by zero''))
         else
           (let st2 = st1\<lparr>stdout := stdout st1 @
                        [Improvement ((avg_generic_wer - avg_atc_wer) / avg_generic_wer * 100),
                         Blank]\<rparr>
            in (st2\<lparr>stdout := stdout st2 @
                      [if avg_atc_wer < 0.15 then Recommended else ConsiderLarger]\<rparr>, None)))"

text \<open>\<^verbatim>\<open>run_comparison_test\<close>: the final state, and the exception it raises, if any.\<close>

definition run_comparison_test :: "env \<Rightarrow> run_state \<times> exn option" where
  "run_comparison_test env =
     (let (samples, loading) = load_atc_samples env 5;
          st0 = \<lparr>stdout = [Rule, Title, Rule, Blank] @ loading, calls = [],
                 generic_wers = [], atc_wers = []\<rparr>
      in if samples = [] then (st0\<lparr>stdout := stdout st0 @ [NoSamples]\<rparr>, None)
         else
           (case comparison_loop env samples st0 of
              (st, Some e) \<Rightarrow> (st, Some e)
            | (st, None) \<Rightarrow> summary st))"

subsection \<open>The entry point\<close>



subsection \<open>The fallback algorithm as the specification words it\<close>

text \<open>
  Following the specification's sentence, not the code: the error count starts at the
  absolute difference of the two lengths, and one error is added for every position below
  the shorter length at which the two sequences differ.
\<close>

definition spec_error_count :: "string list \<Rightarrow> string list \<Rightarrow> nat" where
  "spec_error_count rs hs =
     (max (length rs) (length hs) - min (length rs) (length hs))
     + length (filter (\<lambda>i. rs ! i \<noteq> hs ! i) [0 ..< min (length rs) (length hs)])"

definition spec_wer_fallback :: "string \<Rightarrow> string \<Rightarrow> real" where
  "spec_wer_fallback reference hypothesis =
     (let rs = split (lower reference); hs = split (lower hypothesis)
      in if length rs = 0 then (if 0 < length hs then 1 else 0)
         else min 1 (real (spec_error_count rs hs) / real (length rs)))"

subsection \<open>The primary algorithm\<close>



subsection \<open>Notation for the statements\<close>

text \<open>What each backend returns for a sample, as the loop calls it.\<close>

abbreviation generic_result :: "env \<Rightarrow> sample \<Rightarrow> string" where
  "generic_result env s \<equiv>
     transcribe_with_generic_whisper env (array (sample_audio s)) (sampling_rate (sample_audio s))"

abbreviation atc_result :: "env \<Rightarrow> sample \<Rightarrow> string" where
  "atc_result env s \<equiv>
     transcribe_with_atc_whisper env (array (sample_audio s)) (sampling_rate (sample_audio s))"


text \<open>The arithmetic mean as lines 179 and 180 compute it.\<close>

abbreviation average :: "real list \<Rightarrow> real" where
  "average wers \<equiv> (if wers \<noteq> [] then sum_list wers / real (length wers) else 0)"

text \<open>A corpus entry that the iterator produces and that has both keys.\<close>

definition entry :: "audio_data \<times> string \<Rightarrow> exn + item" where
  "entry e = Inr \<lparr>item_audio = Some (fst e), item_text = Some (snd e)\<rparr>"

subsection \<open>Concrete environments\<close>

text \<open>
  An environment for evaluating the program: every dependency of the preflight installed,
  \<^verbatim>\<open>jiwer\<close> not installed, a corpus with the given reference texts (each with four
  samples of silence at 16 kHz), and two backends with a fixed outcome each.
\<close>

definition silence :: audio_data where
  "silence = \<lparr>array = [0, 0, 0, 0], sampling_rate = 16000\<rparr>"

definition harness :: "string list \<Rightarrow> exn + string \<Rightarrow> exn + string \<Rightarrow> env" where
  "harness texts generic atc =
     \<lparr>jiwer = jiwer_missing,
      load_dataset = Inr (map (\<lambda>t. entry (silence, t)) texts),
      generic_whisper = (\<lambda>audio_array sample_rate. generic),
      atc_whisper = (\<lambda>audio_array sample_rate. atc),
      importable = (\<lambda>m. True)\<rparr>"

section \<open>Properties of the scorer\<close>

lemma count_errors_shift:
  "count_errors e rs hs = e + count_errors 0 rs hs"
proof (induction rs arbitrary: e hs)
  case Nil
  then show ?case by simp
next
  case (Cons r rs)
  show ?case
  proof (cases hs)
    case Nil
    then show ?thesis by simp
  next
    case (Cons h hs')
    show ?thesis
      using Cons.IH [of "e + 1" hs'] Cons.IH [of 1 hs'] Cons.IH [of e hs']
      by (simp add: Cons)
  qed
qed

lemma count_errors_step:
  "count_errors 0 (r # rs) (h # hs) = (if r \<noteq> h then 1 else 0) + count_errors 0 rs hs"
  using count_errors_shift [of 1 rs hs] by simp

lemma mismatches_Cons:
  "length (filter (\<lambda>i. (r # rs) ! i \<noteq> (h # hs) ! i) [0 ..< Suc n])
     = (if r \<noteq> h then 1 else 0) + length (filter (\<lambda>i. rs ! i \<noteq> hs ! i) [0 ..< n])"
proof -
  have upt: "[0 ..< Suc n] = 0 # map Suc [0 ..< n]"
    by (simp add: upt_conv_Cons map_Suc_upt del: upt_Suc)
  show ?thesis
    by (simp only: upt) (simp add: filter_map comp_def)
qed

lemma count_errors_mismatches:
  "count_errors 0 rs hs =
     int (length (filter (\<lambda>i. rs ! i \<noteq> hs ! i) [0 ..< min (length rs) (length hs)]))"
proof (induction rs arbitrary: hs)
  case Nil
  then show ?case by simp
next
  case (Cons r rs)
  show ?case
  proof (cases hs)
    case Nil
    then show ?thesis by simp
  next
    case (Cons h hs')
    have "min (length (r # rs)) (length (h # hs')) = Suc (min (length rs) (length hs'))"
      by simp
    then show ?thesis
      using Cons.IH [of hs']
      by (simp only: Cons count_errors_step mismatches_Cons) simp
  qed
qed

lemma count_errors_nonneg: "0 \<le> count_errors 0 rs hs"
  by (simp add: count_errors_mismatches)

lemma abs_length_diff:
  "\<bar>int a - int b\<bar> = int (max a b - min a b)"
  by (simp add: max_def min_def)

lemma fallback_errors_spec:
  "count_errors \<bar>int (length rs) - int (length hs)\<bar> rs hs = int (spec_error_count rs hs)"
proof -
  have "count_errors \<bar>int (length rs) - int (length hs)\<bar> rs hs
          = \<bar>int (length rs) - int (length hs)\<bar> + count_errors 0 rs hs"
    by (rule count_errors_shift)
  also have "\<dots> = int (max (length rs) (length hs) - min (length rs) (length hs))
          + int (length (filter (\<lambda>i. rs ! i \<noteq> hs ! i) [0 ..< min (length rs) (length hs)]))"
    by (simp only: abs_length_diff count_errors_mismatches)
  also have "\<dots> = int (spec_error_count rs hs)"
    by (simp only: spec_error_count_def of_nat_add)
  finally show ?thesis .
qed

lemma wer_fallback_spec: "wer_fallback reference hypothesis = spec_wer_fallback reference hypothesis"
  by (simp add: wer_fallback_def spec_wer_fallback_def Let_def fallback_errors_spec)

lemma calculate_wer_fallback:
  "calculate_wer (Inl (Exn ImportError m)) reference hypothesis = Inr (wer_fallback reference hypothesis)"
  by (simp add: calculate_wer_def)

lemma wer_fallback_bounds: "0 \<le> wer_fallback r h \<and> wer_fallback r h \<le> 1"
proof -
  have "0 \<le> count_errors \<bar>int (length rs) - int (length hs)\<bar> rs hs" for rs hs
    by (simp add: fallback_errors_spec)
  then show ?thesis
    by (simp add: wer_fallback_def Let_def)
qed

lemma count_errors_zero_iff:
  "length rs = length hs \<Longrightarrow> (count_errors 0 rs hs = 0) = (rs = hs)"
proof (induction rs hs rule: list_induct2)
  case Nil
  then show ?case by simp
next
  case (Cons r rs h hs)
  then show ?case
    using count_errors_nonneg [of rs hs] by (simp add: count_errors_step del: count_errors.simps)
qed

lemma fallback_errors_zero_iff:
  "(count_errors \<bar>int (length rs) - int (length hs)\<bar> rs hs = 0) = (rs = hs)"
proof (cases "length rs = length hs")
  case True
  then show ?thesis by (simp add: count_errors_zero_iff)
next
  case False
  then have "0 < \<bar>int (length rs) - int (length hs)\<bar>" and "rs \<noteq> hs" by auto
  then show ?thesis
    using count_errors_shift [of "\<bar>int (length rs) - int (length hs)\<bar>" rs hs]
      count_errors_nonneg [of rs hs] by simp
qed

lemma wer_fallback_zero_iff:
  "(wer_fallback r h = 0) = (split (lower r) = split (lower h))"
proof (cases "split (lower r) = []")
  case True
  then show ?thesis by (auto simp: wer_fallback_def)
next
  case False
  then have len: "0 < real (length (split (lower r)))" by simp
  have "(min 1 (real_of_int e / real (length (split (lower r)))) = 0) = (e = 0)" for e :: int
    using len by (auto simp: min_def)
  then show ?thesis
    using False by (simp add: wer_fallback_def Let_def fallback_errors_zero_iff)
qed


subsection \<open>Claims about the scorer\<close>

text \<open>
  C1. When the import of the primary scorer fails with an \<open>ImportError\<close>,
  \<^verbatim>\<open>calculate_wer\<close> returns what the fallback algorithm of the specification computes:
  both strings lowercased and split on whitespace; for a reference without words, 1 if the
  hypothesis has a word and 0 otherwise; else the absolute difference of the two lengths
  plus the number of positions below the shorter length at which the sequences differ,
  divided by the number of reference words and capped at 1.
\<close>

theorem C1_fallback_is_specified_algorithm:
  "calculate_wer (Inl (Exn ImportError m)) reference hypothesis =
     Inr (spec_wer_fallback reference hypothesis)"
  by (simp add: calculate_wer_fallback wer_fallback_spec)

text \<open>
  C7. On the fallback branch \<^verbatim>\<open>calculate_wer\<close> returns a score, and the score lies between
  0 and 1, for every reference and hypothesis.
\<close>

theorem C7_fallback_bounded:
  "\<exists>v. calculate_wer (Inl (Exn ImportError m)) reference hypothesis = Inr v \<and> 0 \<le> v \<and> v \<le> 1"
  by (simp add: calculate_wer_fallback wer_fallback_bounds)

text \<open>
  C10. On the fallback branch the score is 0 exactly when the lowercased whitespace
  tokenizations of reference and hypothesis are the same word sequence, and it is strictly
  positive exactly when they differ (in length or at some position).
\<close>

theorem C10_fallback_zero_iff_same_words:
  "(calculate_wer (Inl (Exn ImportError m)) reference hypothesis = Inr 0)
     = (split (lower reference) = split (lower hypothesis))
   \<and> (\<exists>v. calculate_wer (Inl (Exn ImportError m)) reference hypothesis = Inr v \<and> 0 < v)
     = (split (lower reference) \<noteq> split (lower hypothesis))"
proof -
  have "(0 < wer_fallback reference hypothesis) = (wer_fallback reference hypothesis \<noteq> 0)"
    using wer_fallback_bounds [of reference hypothesis] by auto
  then show ?thesis
    by (simp add: calculate_wer_fallback wer_fallback_zero_iff)
qed

section \<open>Properties of loading and of the run\<close>






lemma summary_keeps:
  "calls (fst (summary st)) = calls st
   \<and> generic_wers (fst (summary st)) = generic_wers st
   \<and> atc_wers (fst (summary st)) = atc_wers st"
  by (simp add: summary_def Let_def)

lemma summary_raises:
  "snd (summary st) =
     (if average (generic_wers st) = 0
      then Some (Exn ZeroDivisionError ''float division by zero'') else None)"
  by (simp add: summary_def Let_def)

lemma summary_last:
  "snd (summary st) = None \<Longrightarrow>
   last (stdout (fst (summary st))) =
     (if average (atc_wers st) < 0.15 then Recommended else ConsiderLarger)"
  by (simp add: summary_def Let_def split: if_splits)


lemma fallback_total:
  "jiwer env = Inl (Exn ImportError m) \<Longrightarrow> \<exists>v. calculate_wer (jiwer env) r h = Inr v"
  by (simp add: calculate_wer_def)

section \<open>Claims about the run\<close>

text \<open>
  C2. The recommendation rule. In a run that has samples and reaches the end of its
  summary, the last line printed is the recommendation: the specialized model is
  recommended when the average of the specialized backend's scores is strictly below
  0.15, and the larger model is suggested otherwise (average 0.15 or more). The witness is
  a run whose specialized average is 0.20: it suggests the larger model.
\<close>

theorem C2_recommendation_rule:
  assumes "fst (load_atc_samples env 5) \<noteq> []"
    and "snd (run_comparison_test env) = None"
  shows "last (stdout (fst (run_comparison_test env))) =
     (if average (atc_wers (fst (run_comparison_test env))) < 0.15
      then Recommended else ConsiderLarger)"
proof -
  obtain samples loading where ld: "load_atc_samples env 5 = (samples, loading)"
    by (cases "load_atc_samples env 5")
  let ?st0 = "\<lparr>stdout = [Rule, Title, Rule, Blank] @ loading, calls = [],
                 generic_wers = [], atc_wers = []\<rparr>"
  obtain st r where l: "comparison_loop env samples ?st0 = (st, r)"
    by (cases "comparison_loop env samples ?st0")
  have ne: "samples \<noteq> []" using assms(1) ld by simp
  show ?thesis
  proof (cases r)
    case None
    then have run: "run_comparison_test env = summary st"
      using ne l by (simp add: run_comparison_test_def ld)
    then show ?thesis
      using assms(2) summary_last [of st] summary_keeps [of st] by simp
  next
    case (Some e)
    then have "snd (run_comparison_test env) = Some e"
      using ne l by (simp add: run_comparison_test_def ld)
    then show ?thesis using assms(2) by simp
  qed
qed

theorem C2_recommendation_rule_witness:
  "fst (load_atc_samples
          (harness [''climb and maintain flight level'']
             (Inr ''climb maintain'') (Inr ''climb and maintain flight levels'')) 5) \<noteq> []
   \<and> snd (run_comparison_test
          (harness [''climb and maintain flight level'']
             (Inr ''climb maintain'') (Inr ''climb and maintain flight levels''))) = None
   \<and> average (atc_wers (fst (run_comparison_test
          (harness [''climb and maintain flight level'']
             (Inr ''climb maintain'') (Inr ''climb and maintain flight levels''))))) = 0.20
   \<and> last (stdout (fst (run_comparison_test
          (harness [''climb and maintain flight level'']
             (Inr ''climb maintain'') (Inr ''climb and maintain flight levels''))))) = ConsiderLarger"
proof -
  let ?env = "harness [''climb and maintain flight level'']
                (Inr ''climb maintain'') (Inr ''climb and maintain flight levels'')"
  have h1: "fst (load_atc_samples ?env 5) \<noteq> []" by code_simp
  have h2: "snd (run_comparison_test ?env) = None" by code_simp
  have h3: "atc_wers (fst (run_comparison_test ?env)) = [1 / 5]" by code_simp
  show ?thesis
    using h1 h2 h3 C2_recommendation_rule [OF h1 h2] by simp
qed

text \<open>
  C3. The improvement figure. Line 184 divides by the generic average without a test, so
  a run whose generic average is zero does not omit the figure: it raises
  \<^verbatim>\<open>ZeroDivisionError\<close> after the two averages are printed, and prints neither an
  improvement nor a recommendation. Here the corpus has one sample, which both backends
  transcribe exactly.
\<close>

theorem C3_zero_generic_average_raises:
  "run_comparison_test
     (harness [''cleared for takeoff''] (Inr ''cleared for takeoff'') (Inr ''cleared for takeoff''))
   = (\<lparr>stdout =
        [Rule, Title, Rule, Blank, LoadingDataset, Loaded 1, SampleHeader 1,
         GroundTruth ''cleared for takeoff'', Blank, TestingGeneric,
         Transcription ''cleared for takeoff'', WerLine 0, TestingAtc,
         Transcription ''cleared for takeoff'', WerLine 0, Rule, SummaryTitle,
         Rule, AverageGeneric 0, AverageAtc 0],
       calls = [(Generic, ''cleared for takeoff''), (Atc, ''cleared for takeoff'')],
       generic_wers = [0], atc_wers = [0]\<rparr>,
      Some (Exn ZeroDivisionError ''float division by zero''))"
  by code_simp

text \<open>
  C5. Whatever exception the loading of the corpus raises (the import, the call of
  \<^verbatim>\<open>load_dataset\<close>, the iteration, a missing key), \<^verbatim>\<open>load_atc_samples\<close> returns the
  empty list and prints the error; and when the list of samples is empty, the run prints
  its banner, the loader's lines and the notice that no samples were loaded, and returns:
  no backend is called and no score is computed.
\<close>

theorem C5_corpus_failure_gives_empty_run:
  "(load_attempt env n = Inl e \<longrightarrow>
      load_atc_samples env n = ([], [LoadingDataset, ErrorLoading (message e)]))
   \<and> (fst (load_atc_samples env 5) = [] \<longrightarrow>
      run_comparison_test env =
        (\<lparr>stdout = [Rule, Title, Rule, Blank] @ snd (load_atc_samples env 5) @ [NoSamples],
          calls = [], generic_wers = [], atc_wers = []\<rparr>, None))"
  by (simp add: load_atc_samples_def run_comparison_test_def split: prod.splits)

theorem C5_corpus_failure_gives_empty_run_witness:
  "load_attempt
     ((harness [] (Inr ''cleared'') (Inr ''cleared''))
        \<lparr>load_dataset := Inr [entry (silence, ''cleared for takeoff''),
                             Inr \<lparr>item_audio = Some silence, item_text = None\<rparr>]\<rparr>) 5
     = Inl (Exn KeyError (CHR 0x27 # ''text'' @ [CHR 0x27]))
   \<and> run_comparison_test
     ((harness [] (Inr ''cleared'') (Inr ''cleared''))
        \<lparr>load_dataset := Inr [entry (silence, ''cleared for takeoff''),
                             Inr \<lparr>item_audio = Some silence, item_text = None\<rparr>]\<rparr>)
     = (\<lparr>stdout = [Rule, Title, Rule, Blank, LoadingDataset,
                    ErrorLoading (CHR 0x27 # ''text'' @ [CHR 0x27]), NoSamples],
         calls = [], generic_wers = [], atc_wers = []\<rparr>, None)"
proof -
  let ?env = "(harness [] (Inr ''cleared'') (Inr ''cleared''))
        \<lparr>load_dataset := Inr [entry (silence, ''cleared for takeoff''),
                             Inr \<lparr>item_audio = Some silence, item_text = None\<rparr>]\<rparr>"
  have h1: "load_attempt ?env 5 = Inl (Exn KeyError (CHR 0x27 # ''text'' @ [CHR 0x27]))"
    by code_simp
  have l: "load_atc_samples ?env 5
             = ([], [LoadingDataset, ErrorLoading (message (Exn KeyError (CHR 0x27 # ''text'' @ [CHR 0x27])))])"
    using C5_corpus_failure_gives_empty_run [of ?env 5 "Exn KeyError (CHR 0x27 # ''text'' @ [CHR 0x27])"] h1
    by blast
  then have h2: "fst (load_atc_samples ?env 5) = []" by simp
  have "run_comparison_test ?env =
        (\<lparr>stdout = [Rule, Title, Rule, Blank] @ snd (load_atc_samples ?env 5) @ [NoSamples],
          calls = [], generic_wers = [], atc_wers = []\<rparr>, None)"
    using C5_corpus_failure_gives_empty_run [of ?env 5 "Exn KeyError (CHR 0x27 # ''text'' @ [CHR 0x27])"] h2
    by blast
  then show ?thesis using h1 l by simp
qed





section \<open>Claims about the boundary cases and the entry point\<close>









end
